theory Spec2Isabelle
  imports Complex_Main "HOL-Library.Log_Nat"
begin

section \<open>SaveMyMoney ML API: the prediction routes\<close>

text \<open>
  A shallow embedding of \<^verbatim>\<open>ml-api/app/routers/predictions.py\<close> and of the request and
  response schemas of \<^verbatim>\<open>ml-api/app/models/schemas.py\<close>.

  Conventions of the embedding:
  \<^item> a Python \<^verbatim>\<open>float\<close> is a \<open>real\<close>, the value of the double; infinities and NaN are
    not modelled. Sums and means are exact; the percentage that
    \<^verbatim>\<open>_generate_recommendation\<close> prints is computed with the rounding of binary64
    arithmetic, since the printed digit depends on it;
  \<^item> a Python \<^verbatim>\<open>int\<close> is an \<open>int\<close>, a \<^verbatim>\<open>datetime\<close> an \<open>int\<close> (a timestamp);
  \<^item> a Python \<^verbatim>\<open>str\<close> is a \<open>string\<close>, one \<open>char\<close> per code point (every code
    point of the source's literals is below 256);
  \<^item> a raised exception is the \<open>Inl\<close> of a sum, a returned value its \<open>Inr\<close>;
  \<^item> record fields carry a short prefix, since two schemas share field names
    (\<^verbatim>\<open>user_id\<close>, \<^verbatim>\<open>category\<close>, \<^verbatim>\<open>trend\<close>).
\<close>

subsection \<open>Exceptions\<close>

text \<open>
  The exception classes the routes raise or catch. \<open>ValidationError\<close> is pydantic's (a
  subclass of \<^verbatim>\<open>ValueError\<close>) and carries the names of the offending fields;
  \<open>Exception\<close> stands for every other subclass of \<^verbatim>\<open>Exception\<close>.
\<close>

datatype exc =
    HTTPException nat string
  | ValueError string
  | ValidationError "string list"
  | Exception string

fun is_HTTPException :: "exc \<Rightarrow> bool" where
  "is_HTTPException (HTTPException status_code detail) = True"
| "is_HTTPException e = False"

text \<open>\<^verbatim>\<open>except ValueError\<close> matches the class and its subclasses.\<close>

fun is_ValueError :: "exc \<Rightarrow> bool" where
  "is_ValueError (ValueError msg) = True"
| "is_ValueError (ValidationError fields) = True"
| "is_ValueError e = False"

subsection \<open>Text of numbers\<close>

definition digit_char :: "nat \<Rightarrow> char" where
  "digit_char d = ''0123456789'' ! (d mod 10)"

text \<open>\<^verbatim>\<open>str(n)\<close> of a non-negative integer: its decimal digits.\<close>

function str_int :: "int \<Rightarrow> string" where
  "str_int n =
     (if n < 10 then [digit_char (nat n)]
      else str_int (n div 10) @ [digit_char (nat (n mod 10))])"
  by pat_completeness auto
termination
  by (relation "measure nat") auto

declare str_int.simps [simp del]

text \<open>Rounding of a non-negative real to the nearest integer, ties to the even one.\<close>

definition round_half_even :: "real \<Rightarrow> int" where
  "round_half_even y =
     (let f = \<lfloor>y\<rfloor>; r = y - of_int f
      in if r < 1 / 2 then f else if 1 / 2 < r then f + 1 else if even f then f else f + 1)"

subsection \<open>Binary64 arithmetic\<close>

text \<open>
  \<open>pow2 k\<close> is \<open>2\<close> to the power \<open>k\<close>, and \<open>binade x\<close>, for a positive \<open>x\<close>, the
  exponent \<open>e\<close> with \<open>2 ^ e \<le> x < 2 ^ (e + 1)\<close>.
\<close>

definition pow2 :: "int \<Rightarrow> real" where
  "pow2 k = (if 0 \<le> k then 2 ^ nat k else 1 / 2 ^ nat (- k))"

definition binade :: "real \<Rightarrow> int" where
  "binade x = (if 1 \<le> x then bitlen \<lfloor>x\<rfloor> - 1 else - bitlen (\<lceil>1 / x\<rceil> - 1))"

text \<open>
  The double nearest to a real, ties to the even significand: 53 significant bits, the
  spacing never below \<open>2 ^ - 1074\<close> (subnormal numbers). Overflow to infinity is not
  modelled.
\<close>

definition round_double :: "real \<Rightarrow> real" where
  "round_double x =
     (if x = 0 then 0
      else (let ulp = pow2 (max (binade \<bar>x\<bar> - 52) (- 1074))
            in sgn x * of_int (round_half_even (\<bar>x\<bar> / ulp)) * ulp))"

text \<open>
  The operators \<^verbatim>\<open>-\<close>, \<^verbatim>\<open>/\<close> and \<^verbatim>\<open>*\<close> on floats: the exact result, rounded. The
  operands are doubles; one that is not (an \<^verbatim>\<open>int\<close>, or a real given in decimal) is read
  as the nearest double, as Python converts it.
\<close>

definition fsub :: "real \<Rightarrow> real \<Rightarrow> real" where
  "fsub a b = round_double (round_double a - round_double b)"

definition fdiv :: "real \<Rightarrow> real \<Rightarrow> real" where
  "fdiv a b = round_double (round_double a / round_double b)"

definition fmul :: "real \<Rightarrow> real \<Rightarrow> real" where
  "fmul a b = round_double (round_double a * round_double b)"

text \<open>
  The format specification \<^verbatim>\<open>:.1f\<close> of a float (an \<^verbatim>\<open>int\<close> is converted first): sign,
  integer part, a point and one decimal, the exact value of the double rounded to the
  nearest tenth, ties to even.
\<close>

definition format_1f :: "real \<Rightarrow> string" where
  "format_1f x =
     (let t = round_half_even (\<bar>round_double x\<bar> * 10)
      in (if x < 0 then ''-'' else '''') @ str_int (t div 10) @ ''.'' @
         [digit_char (nat (t mod 10))])"

subsection \<open>Text of exceptions\<close>

text \<open>
  \<^verbatim>\<open>str(e)\<close>. A Starlette \<^verbatim>\<open>HTTPException\<close> prints as \<^verbatim>\<open>"{status_code}: {detail}"\<close>,
  a \<^verbatim>\<open>ValueError\<close> and any other exception as its message. The message of a pydantic
  \<^verbatim>\<open>ValidationError\<close> is composed by that library from its version and the offending
  input, which the routes' sources do not hold: it is left open here. The only
  \<open>ValidationError\<close> the routes build is the request constructor's, which no handler
  prints. The theorems below leave \<open>str_exc\<close> of a caught exception as it stands; only
  the closed examples spell the text of an \<^verbatim>\<open>HTTPException\<close> out.
\<close>

fun str_exc :: "exc \<Rightarrow> string" where
  "str_exc (HTTPException status_code detail) = str_int (int status_code) @ '': '' @ detail"
| "str_exc (ValueError msg) = msg"
| "str_exc (ValidationError fields) = undefined"
| "str_exc (Exception msg) = msg"

subsection \<open>Schemas\<close>

text \<open>
  A stored transaction document: the fields of the schema \<^verbatim>\<open>Transaction\<close>, and the
  \<^verbatim>\<open>_id\<close> and \<^verbatim>\<open>user\<close> keys that \<^verbatim>\<open>get_user_transactions\<close> reads.
\<close>

record Transaction =
  t_id :: string
  t_user :: string
  t_description :: string
  t_amount :: real
  t_date :: int
  t_category :: string
  t_type :: string

record PredictionRequest =
  req_user_id :: string
  req_category :: "string option"
  req_days_ahead :: int
  req_model_type :: string

record PredictionPoint =
  pp_date :: string
  pp_predicted_amount :: real
  pp_confidence_lower :: "real option"
  pp_confidence_upper :: "real option"

record PredictionResponse =
  resp_user_id :: string
  resp_category :: "string option"
  resp_predictions :: "PredictionPoint list"
  resp_model_type :: string
  resp_accuracy_score :: "real option"
  resp_total_predicted :: real
  resp_avg_daily_spending :: real
  resp_trend :: string
  resp_created_at :: int

record CategoryInsights =
  ci_category :: string
  ci_current_avg :: real
  ci_predicted_avg :: real
  ci_trend :: string
  ci_recommendation :: string

record InsightsResponse =
  ir_user_id :: string
  ir_total_predicted_spending :: real
  ir_categories :: "CategoryInsights list"
  ir_overall_trend :: string
  ir_created_at :: int

text \<open>
  The constructor of \<^verbatim>\<open>PredictionRequest\<close> with its two \<^verbatim>\<open>Field\<close> constraints:
  \<^verbatim>\<open>days_ahead: ge=1, le=365\<close> and \<^verbatim>\<open>model_type: pattern="^(linear|lstm)$"\<close>.
  A violated constraint raises pydantic's \<^verbatim>\<open>ValidationError\<close>, which names every
  offending field.
\<close>

definition PredictionRequest_init ::
  "string \<Rightarrow> string option \<Rightarrow> int \<Rightarrow> string \<Rightarrow> exc + PredictionRequest" where
  "PredictionRequest_init user_id category days_ahead model_type =
     (let bad = (if 1 \<le> days_ahead \<and> days_ahead \<le> 365 then [] else [''days_ahead'']) @
                (if model_type = ''linear'' \<or> model_type = ''lstm'' then [] else [''model_type''])
      in if bad = []
         then Inr \<lparr>req_user_id = user_id, req_category = category,
                   req_days_ahead = days_ahead, req_model_type = model_type\<rparr>
         else Inl (ValidationError bad))"

subsection \<open>The collaborators that are not part of the routes\<close>

text \<open>
  The dictionary a predictor's \<^verbatim>\<open>predict\<close> returns, with the keys the routes read.
  The key \<^verbatim>\<open>accuracy_score\<close> is read with \<^verbatim>\<open>.get\<close>: \<open>fc_accuracy_score\<close> is \<open>None\<close>
  for an absent key, \<open>Some None\<close> for the value \<^verbatim>\<open>None\<close> and \<open>Some (Some a)\<close> for a float.
\<close>

record forecast =
  fc_predictions :: "PredictionPoint list"
  fc_total_predicted :: real
  fc_avg_daily_spending :: real
  fc_trend :: string
  fc_accuracy_score :: "real option option"

text \<open>
  What the routes import and do not define is a parameter of the model:
  \<^item> \<open>transactions_collection\<close>: the documents of \<^verbatim>\<open>db.transactions\<close>;
  \<^item> \<open>TENSORFLOW_AVAILABLE\<close>: the flag of \<^verbatim>\<open>app.ml.lstm_predictor\<close>;
  \<^item> \<open>LinearPredictor_predict\<close>: \<^verbatim>\<open>LinearPredictor().predict\<close>, any function from the
    transactions and \<^verbatim>\<open>days_ahead\<close> to a forecast or a raised exception;
  \<^item> \<open>LSTMPredictor_predict\<close>: \<^verbatim>\<open>LSTMPredictor(lookback).predict\<close>, the first argument
    the \<^verbatim>\<open>lookback\<close> given to the constructor (\<open>None\<close>: the class's default);
  \<^item> \<open>set_iteration\<close>: the order in which \<^verbatim>\<open>list(set(xs))\<close> lists the elements of
    \<^verbatim>\<open>xs\<close>, which Python leaves open;
  \<^item> \<open>now\<close>: what \<^verbatim>\<open>datetime.now()\<close> returns.
\<close>

record runtime =
  transactions_collection :: "Transaction list"
  TENSORFLOW_AVAILABLE :: bool
  LinearPredictor_predict :: "Transaction list \<Rightarrow> int \<Rightarrow> exc + forecast"
  LSTMPredictor_predict :: "nat option \<Rightarrow> Transaction list \<Rightarrow> int \<Rightarrow> exc + forecast"
  set_iteration :: "string list \<Rightarrow> string list"
  now :: int

text \<open>
  \<^verbatim>\<open>list(set(xs))\<close> holds every element of \<^verbatim>\<open>xs\<close> once, in some order.
\<close>

definition enumerates :: "(string list \<Rightarrow> string list) \<Rightarrow> string list \<Rightarrow> bool" where
  "enumerates f xs = (distinct (f xs) \<and> set (f xs) = set xs)"

subsection \<open>\<^verbatim>\<open>get_user_transactions\<close>\<close>

text \<open>
  The query \<^verbatim>\<open>{"user": user_id, "type": "expense"}\<close>, with the \<^verbatim>\<open>category\<close> key added
  when \<^verbatim>\<open>category\<close> is truthy (neither \<^verbatim>\<open>None\<close> nor the empty string).
\<close>

definition matches_query :: "string \<Rightarrow> string option \<Rightarrow> Transaction \<Rightarrow> bool" where
  "matches_query user_id category t =
     (t_user t = user_id \<and> t_type t = ''expense'' \<and>
      (case category of
         None \<Rightarrow> True
       | Some c \<Rightarrow> (if c = [] then True else t_category t = c)))"

text \<open>
  \<^verbatim>\<open>find(query).sort("date", 1)\<close> and \<^verbatim>\<open>to_list(length=1000)\<close>: the matching documents by
  ascending date, at most the first 1000. The loop that rewrites \<^verbatim>\<open>_id\<close> and
  \<^verbatim>\<open>user\<close> as strings changes nothing here, both being strings already.
\<close>

definition get_user_transactions :: "runtime \<Rightarrow> string \<Rightarrow> string option \<Rightarrow> Transaction list" where
  "get_user_transactions rt user_id category =
     take 1000 (sort_key t_date (filter (matches_query user_id category) (transactions_collection rt)))"

subsection \<open>\<^verbatim>\<open>predict_expenses\<close>\<close>

text \<open>The block \<^verbatim>\<open># Select model based on request\<close>.\<close>

definition select_predictor ::
  "runtime \<Rightarrow> PredictionRequest \<Rightarrow> exc + (Transaction list \<Rightarrow> int \<Rightarrow> exc + forecast)" where
  "select_predictor rt request =
     (if req_model_type request = ''lstm'' then
        (if \<not> TENSORFLOW_AVAILABLE rt then
           Inl (HTTPException 503
             ''LSTM model not available. TensorFlow is not installed. Using linear regression instead.'')
         else Inr (LSTMPredictor_predict rt (Some 7)))
      else Inr (LinearPredictor_predict rt))"

text \<open>
  The selection as the specification words it, for comparison with the code: each of the
  two supported values selects its predictor.
\<close>

definition spec_select_predictor ::
  "runtime \<Rightarrow> PredictionRequest \<Rightarrow> (Transaction list \<Rightarrow> int \<Rightarrow> exc + forecast)" where
  "spec_select_predictor rt request =
     (if req_model_type request = ''lstm'' then LSTMPredictor_predict rt (Some 7)
      else LinearPredictor_predict rt)"

text \<open>
  The block \<^verbatim>\<open># Prepare response\<close>. \<^verbatim>\<open>result.get("accuracy_score")\<close> is \<^verbatim>\<open>None\<close> for an
  absent key.
\<close>

definition prepare_response :: "runtime \<Rightarrow> PredictionRequest \<Rightarrow> forecast \<Rightarrow> PredictionResponse" where
  "prepare_response rt request result =
     \<lparr>resp_user_id = req_user_id request,
      resp_category = req_category request,
      resp_predictions = fc_predictions result,
      resp_model_type = req_model_type request,
      resp_accuracy_score = (case fc_accuracy_score result of None \<Rightarrow> None | Some a \<Rightarrow> a),
      resp_total_predicted = fc_total_predicted result,
      resp_avg_daily_spending = fc_avg_daily_spending result,
      resp_trend = fc_trend result,
      resp_created_at = now rt\<rparr>"

text \<open>The body of the \<^verbatim>\<open>try\<close> statement of \<^verbatim>\<open>predict_expenses\<close>.\<close>

definition predict_expenses_try :: "runtime \<Rightarrow> PredictionRequest \<Rightarrow> exc + PredictionResponse" where
  "predict_expenses_try rt request =
     (let transactions = get_user_transactions rt (req_user_id request) (req_category request)
      in if transactions = [] then
           Inl (HTTPException 404 ''No transaction data found for this user'')
         else
           (case select_predictor rt request of
              Inl e \<Rightarrow> Inl e
            | Inr predict \<Rightarrow>
                (case predict transactions (req_days_ahead request) of
                   Inl e \<Rightarrow> Inl e
                 | Inr result \<Rightarrow> Inr (prepare_response rt request result))))"

text \<open>
  The two handlers of \<^verbatim>\<open>predict_expenses\<close>, in the source's order:
  \<^verbatim>\<open>except ValueError\<close>, then \<^verbatim>\<open>except Exception\<close>. There is no
  \<^verbatim>\<open>except HTTPException: raise\<close> before them, and \<^verbatim>\<open>HTTPException\<close> is an
  \<^verbatim>\<open>Exception\<close>.
\<close>

definition predict_expenses_except :: "exc \<Rightarrow> exc" where
  "predict_expenses_except e =
     (if is_ValueError e then HTTPException 400 (str_exc e)
      else HTTPException 500 (''Prediction error: '' @ str_exc e))"

definition predict_expenses :: "runtime \<Rightarrow> PredictionRequest \<Rightarrow> exc + PredictionResponse" where
  "predict_expenses rt request =
     (case predict_expenses_try rt request of
        Inl e \<Rightarrow> Inl (predict_expenses_except e)
      | Inr response \<Rightarrow> Inr response)"

subsection \<open>\<^verbatim>\<open>predict_category\<close>\<close>

text \<open>
  The route builds the request itself, outside any \<^verbatim>\<open>try\<close>: a \<^verbatim>\<open>ValidationError\<close>
  of the constructor leaves the route as it is.
\<close>

definition predict_category ::
  "runtime \<Rightarrow> string \<Rightarrow> string \<Rightarrow> int \<Rightarrow> string \<Rightarrow> exc + PredictionResponse" where
  "predict_category rt user_id category days_ahead model_type =
     (case PredictionRequest_init user_id (Some category) days_ahead model_type of
        Inl e \<Rightarrow> Inl e
      | Inr request \<Rightarrow> predict_expenses rt request)"

subsection \<open>\<^verbatim>\<open>_generate_recommendation\<close>\<close>

text \<open>
  The three texts, the percentage printed with \<^verbatim>\<open>:.1f\<close>. The code points \<open>0xE3\<close>,
  \<open>0xD3\<close> and \<open>0xE1\<close> are the accented letters of the Portuguese literals. The
  percentage is the source's expression in float arithmetic: \<^verbatim>\<open>(a - b) / c * 100\<close> is
  \<open>fmul (fdiv (fsub a b) c) 100\<close>; the other branch is the \<^verbatim>\<open>int\<close> \<open>0\<close>.
\<close>

definition increasing_text :: "real \<Rightarrow> string" where
  "increasing_text increase_pct =
     ''Seus gastos nesta categoria est'' @ [CHR 0xE3] @ ''o aumentando (~'' @
     format_1f increase_pct @ ''%). Considere estabelecer um limite.''"

definition decreasing_text :: "real \<Rightarrow> string" where
  "decreasing_text decrease_pct =
     [CHR 0xD3] @ ''timo! Seus gastos est'' @ [CHR 0xE3] @ ''o diminuindo (~'' @
     format_1f decrease_pct @ ''%). Continue assim!''"

definition stable_text :: string where
  "stable_text =
     ''Seus gastos est'' @ [CHR 0xE3] @ ''o est'' @ [CHR 0xE1] @ ''veis. Mantenha o controle!''"

definition generate_recommendation :: "string \<Rightarrow> real \<Rightarrow> real \<Rightarrow> string" where
  "generate_recommendation trend predicted_avg current_avg =
     (if trend = ''increasing'' then
        (let increase_pct =
               (if current_avg > 0
                then fmul (fdiv (fsub predicted_avg current_avg) current_avg) 100
                else 0)
         in increasing_text increase_pct)
      else if trend = ''decreasing'' then
        (let decrease_pct =
               (if current_avg > 0
                then fmul (fdiv (fsub current_avg predicted_avg) current_avg) 100
                else 0)
         in decreasing_text decrease_pct)
      else stable_text)"

text \<open>
  The recommendation as the specification words it, for comparison with the code: the
  percentage is the quotient, in the same float arithmetic, and \<open>0\<close> when
  \<open>current_avg\<close> equals \<open>0\<close>.
\<close>

definition spec_recommendation :: "string \<Rightarrow> real \<Rightarrow> real \<Rightarrow> string" where
  "spec_recommendation trend predicted_avg current_avg =
     (if trend = ''increasing'' then
        increasing_text
          (if current_avg = 0 then 0
           else fmul (fdiv (fsub predicted_avg current_avg) current_avg) 100)
      else if trend = ''decreasing'' then
        decreasing_text
          (if current_avg = 0 then 0
           else fmul (fdiv (fsub current_avg predicted_avg) current_avg) 100)
      else stable_text)"

subsection \<open>\<^verbatim>\<open>get_spending_insights\<close>\<close>

text \<open>\<^verbatim>\<open>df['amount'].mean()\<close> of a non-empty column.\<close>

definition mean :: "real list \<Rightarrow> real" where
  "mean xs = sum_list xs / real (length xs)"

text \<open>The list comprehension that filters the transactions of one category.\<close>

definition cat_transactions :: "Transaction list \<Rightarrow> string \<Rightarrow> Transaction list" where
  "cat_transactions transactions category = filter (\<lambda>t. t_category t = category) transactions"

text \<open>The \<^verbatim>\<open>CategoryInsights\<close> built in the inner \<^verbatim>\<open>try\<close> from a forecast.\<close>

definition make_insight :: "string \<Rightarrow> Transaction list \<Rightarrow> forecast \<Rightarrow> CategoryInsights" where
  "make_insight category cat_txs result =
     (let current_avg = mean (map t_amount cat_txs)
      in \<lparr>ci_category = category,
          ci_current_avg = current_avg,
          ci_predicted_avg = fc_avg_daily_spending result,
          ci_trend = fc_trend result,
          ci_recommendation =
            generate_recommendation (fc_trend result) (fc_avg_daily_spending result) current_avg\<rparr>)"

text \<open>
  The loop \<^verbatim>\<open>for category in categories\<close>, its state the pair of
  \<^verbatim>\<open>category_insights\<close> and \<^verbatim>\<open>total_predicted\<close>. A category with fewer than two
  transactions is passed over by \<^verbatim>\<open>continue\<close>; an exception of the forecast is caught
  by the inner \<^verbatim>\<open>except Exception\<close>, which continues too.
\<close>

fun insights_loop ::
  "runtime \<Rightarrow> Transaction list \<Rightarrow> int \<Rightarrow> string list \<Rightarrow>
   CategoryInsights list \<times> real \<Rightarrow> CategoryInsights list \<times> real" where
  "insights_loop rt transactions days_ahead [] state = state"
| "insights_loop rt transactions days_ahead (category # categories) (category_insights, total_predicted) =
     (let cat_txs = cat_transactions transactions category
      in if length cat_txs < 2 then
           insights_loop rt transactions days_ahead categories (category_insights, total_predicted)
         else
           (case LinearPredictor_predict rt cat_txs days_ahead of
              Inl e \<Rightarrow>
                insights_loop rt transactions days_ahead categories (category_insights, total_predicted)
            | Inr result \<Rightarrow>
                insights_loop rt transactions days_ahead categories
                  (category_insights @ [make_insight category cat_txs result],
                   total_predicted + fc_total_predicted result)))"

text \<open>The block \<^verbatim>\<open># Determine overall trend\<close>.\<close>

definition overall_trend_of :: "CategoryInsights list \<Rightarrow> string" where
  "overall_trend_of category_insights =
     (let increasing_count = length (filter (\<lambda>ci. ci_trend ci = ''increasing'') category_insights);
          decreasing_count = length (filter (\<lambda>ci. ci_trend ci = ''decreasing'') category_insights)
      in if increasing_count > decreasing_count then ''increasing''
         else if decreasing_count > increasing_count then ''decreasing''
         else ''stable'')"

text \<open>The body of the outer \<^verbatim>\<open>try\<close> statement.\<close>

definition get_spending_insights_try :: "runtime \<Rightarrow> string \<Rightarrow> int \<Rightarrow> exc + InsightsResponse" where
  "get_spending_insights_try rt user_id days_ahead =
     (let transactions = get_user_transactions rt user_id None
      in if transactions = [] then
           Inl (HTTPException 404 ''No transaction data found for this user'')
         else
           (let categories = set_iteration rt (map t_category transactions);
                state = insights_loop rt transactions days_ahead categories ([], 0)
            in Inr \<lparr>ir_user_id = user_id,
                    ir_total_predicted_spending = snd state,
                    ir_categories = fst state,
                    ir_overall_trend = overall_trend_of (fst state),
                    ir_created_at = now rt\<rparr>))"

text \<open>
  The handlers shared by \<^verbatim>\<open>get_spending_insights\<close> and \<^verbatim>\<open>compare_models\<close>:
  \<^verbatim>\<open>except HTTPException: raise\<close>, then \<^verbatim>\<open>except Exception\<close> with the route's prefix.
\<close>

definition reraise_or_500 :: "string \<Rightarrow> exc \<Rightarrow> exc" where
  "reraise_or_500 prefix e =
     (if is_HTTPException e then e else HTTPException 500 (prefix @ str_exc e))"

definition get_spending_insights :: "runtime \<Rightarrow> string \<Rightarrow> int \<Rightarrow> exc + InsightsResponse" where
  "get_spending_insights rt user_id days_ahead =
     (case get_spending_insights_try rt user_id days_ahead of
        Inl e \<Rightarrow> Inl (reraise_or_500 ''Insights error: '' e)
      | Inr response \<Rightarrow> Inr response)"

subsection \<open>\<^verbatim>\<open>compare_models\<close>\<close>

text \<open>
  The dictionary the route returns: one summary for the linear model, and for the LSTM
  either a summary (key \<^verbatim>\<open>lstm\<close>), the text of its exception (key \<^verbatim>\<open>lstm_error\<close>) or
  the fixed text under \<^verbatim>\<open>lstm\<close>. \<^verbatim>\<open>.get("accuracy_score", 0.0)\<close> reads \<open>0\<close> for an absent
  key, and the stored value, \<^verbatim>\<open>None\<close> included, for a present one.
\<close>

record model_summary =
  ms_total_predicted :: real
  ms_avg_daily_spending :: real
  ms_trend :: string
  ms_accuracy_score :: "real option"

datatype lstm_entry =
    Lstm_summary model_summary
  | Lstm_error string
  | Lstm_text string

record comparison =
  cmp_user_id :: string
  cmp_days_ahead :: int
  cmp_linear_regression :: model_summary
  cmp_lstm :: lstm_entry

definition summary_of :: "forecast \<Rightarrow> model_summary" where
  "summary_of result =
     \<lparr>ms_total_predicted = fc_total_predicted result,
      ms_avg_daily_spending = fc_avg_daily_spending result,
      ms_trend = fc_trend result,
      ms_accuracy_score = (case fc_accuracy_score result of None \<Rightarrow> Some 0 | Some a \<Rightarrow> a)\<rparr>"

definition compare_models_try :: "runtime \<Rightarrow> string \<Rightarrow> int \<Rightarrow> exc + comparison" where
  "compare_models_try rt user_id days_ahead =
     (let transactions = get_user_transactions rt user_id None
      in if transactions = [] then
           Inl (HTTPException 404 ''No transaction data found for this user'')
         else
           (case LinearPredictor_predict rt transactions days_ahead of
              Inl e \<Rightarrow> Inl e
            | Inr linear_result \<Rightarrow>
                Inr \<lparr>cmp_user_id = user_id,
                     cmp_days_ahead = days_ahead,
                     cmp_linear_regression = summary_of linear_result,
                     cmp_lstm =
                       (if TENSORFLOW_AVAILABLE rt \<and> length transactions \<ge> 8 then
                          (case LSTMPredictor_predict rt None transactions days_ahead of
                             Inl e \<Rightarrow> Lstm_error (str_exc e)
                           | Inr lstm_result \<Rightarrow> Lstm_summary (summary_of lstm_result))
                        else
                          Lstm_text
                            ''Not available (requires TensorFlow and at least 8 days of data)'')\<rparr>))"

definition compare_models :: "runtime \<Rightarrow> string \<Rightarrow> int \<Rightarrow> exc + comparison" where
  "compare_models rt user_id days_ahead =
     (case compare_models_try rt user_id days_ahead of
        Inl e \<Rightarrow> Inl (reraise_or_500 ''Comparison error: '' e)
      | Inr result \<Rightarrow> Inr result)"

subsection \<open>A concrete runtime for the closed examples\<close>

text \<open>
  The predictor classes are not among the routes' sources; the closed examples below run
  the routes with this stand-in: it raises \<^verbatim>\<open>ValueError\<close> on fewer than two distinct
  dates, and otherwise forecasts the mean amount for every day, the trend read from the
  first and the last amount. The theorems hold for every predictor.
\<close>

definition example_predict :: "Transaction list \<Rightarrow> int \<Rightarrow> exc + forecast" where
  "example_predict transactions days_ahead =
     (if length (remdups (map t_date transactions)) < 2 then
        Inl (ValueError ''Need at least 2 days of data'')
      else
        (let first_amount = t_amount (hd transactions);
             last_amount = t_amount (last transactions);
             avg = mean (map t_amount transactions)
         in Inr \<lparr>fc_predictions = [],
                 fc_total_predicted = avg * of_int days_ahead,
                 fc_avg_daily_spending = avg,
                 fc_trend =
                   (if first_amount < last_amount then ''increasing''
                    else if last_amount < first_amount then ''decreasing''
                    else ''stable''),
                 fc_accuracy_score = None\<rparr>))"

text \<open>
  The stand-in for the LSTM predictor asks for one transaction more than its
  \<^verbatim>\<open>lookback\<close> (\<open>7\<close> when the constructor is given none), and forecasts a stable zero.
\<close>

definition example_lstm_predict :: "nat option \<Rightarrow> Transaction list \<Rightarrow> int \<Rightarrow> exc + forecast" where
  "example_lstm_predict lookback transactions days_ahead =
     (if length transactions < (case lookback of None \<Rightarrow> 7 | Some n \<Rightarrow> n) + 1 then
        Inl (ValueError ''Need more history'')
      else
        Inr \<lparr>fc_predictions = [],
             fc_total_predicted = 0,
             fc_avg_daily_spending = 0,
             fc_trend = ''stable'',
             fc_accuracy_score = Some (Some (1 / 2))\<rparr>)"

definition tx :: "string \<Rightarrow> string \<Rightarrow> real \<Rightarrow> int \<Rightarrow> string \<Rightarrow> string \<Rightarrow> Transaction" where
  "tx i u a d c ty =
     \<lparr>t_id = i, t_user = u, t_description = [], t_amount = a, t_date = d,
      t_category = c, t_type = ty\<rparr>"

text \<open>
  Expenses of \<open>ana\<close> in three categories (two in \<open>food\<close> on two days, one in \<open>rent\<close>,
  two in \<open>fun\<close> on one day), her two incomes, and an expense of \<open>bob\<close>.
\<close>

definition example_collection :: "Transaction list" where
  "example_collection =
     [tx ''1'' ''ana'' 10 1 ''food'' ''expense'',
      tx ''2'' ''ana'' 30 2 ''food'' ''expense'',
      tx ''3'' ''ana'' 500 1 ''rent'' ''expense'',
      tx ''4'' ''ana'' 5 3 ''fun'' ''expense'',
      tx ''5'' ''ana'' 7 3 ''fun'' ''expense'',
      tx ''6'' ''ana'' 1000 1 ''salary'' ''income'',
      tx ''7'' ''ana'' 1200 2 ''salary'' ''income'',
      tx ''8'' ''bob'' 42 1 ''food'' ''expense'']"

definition example_runtime :: runtime where
  "example_runtime =
     \<lparr>transactions_collection = example_collection,
      TENSORFLOW_AVAILABLE = False,
      LinearPredictor_predict = example_predict,
      LSTMPredictor_predict = example_lstm_predict,
      set_iteration = remdups,
      now = 0\<rparr>"

text \<open>
  The stored collection of the examples with other non-expense records: one income
  dropped, one changed, a transfer added.
\<close>

definition example_collection_other_incomes :: "Transaction list" where
  "example_collection_other_incomes =
     [tx ''9'' ''ana'' 77 2 ''food'' ''transfer'',
      tx ''1'' ''ana'' 10 1 ''food'' ''expense'',
      tx ''2'' ''ana'' 30 2 ''food'' ''expense'',
      tx ''3'' ''ana'' 500 1 ''rent'' ''expense'',
      tx ''4'' ''ana'' 5 3 ''fun'' ''expense'',
      tx ''5'' ''ana'' 7 3 ''fun'' ''expense'',
      tx ''7'' ''ana'' 9999 2 ''food'' ''income'',
      tx ''8'' ''bob'' 42 1 ''food'' ''expense'']"

definition example_request :: "string \<Rightarrow> string \<Rightarrow> PredictionRequest" where
  "example_request user_id model_type =
     \<lparr>req_user_id = user_id, req_category = None, req_days_ahead = 30,
      req_model_type = model_type\<rparr>"

section \<open>Properties of the routes\<close>

subsection \<open>Auxiliary facts\<close>

lemma filter_matches_query_expense:
  "filter (matches_query user_id category) (filter (\<lambda>t. t_type t = ''expense'') xs) =
   filter (matches_query user_id category) xs"
  by (induction xs) (auto simp: matches_query_def)

lemma get_user_transactions_expense_only:
  assumes "filter (\<lambda>t. t_type t = ''expense'') (transactions_collection rt') =
           filter (\<lambda>t. t_type t = ''expense'') (transactions_collection rt)"
  shows "get_user_transactions rt' user_id category = get_user_transactions rt user_id category"
proof -
  have "filter (matches_query user_id category) (transactions_collection rt') =
        filter (matches_query user_id category) (transactions_collection rt)"
    using assms filter_matches_query_expense [of user_id category] by metis
  then show ?thesis
    by (simp add: get_user_transactions_def)
qed

lemma insights_loop_eq:
  "insights_loop rt txs d cats (ins, tot) =
     (ins @ map (\<lambda>c. make_insight c (cat_transactions txs c)
                      (projr (LinearPredictor_predict rt (cat_transactions txs c) d)))
               (filter (\<lambda>c. 2 \<le> length (cat_transactions txs c) \<and>
                            \<not> isl (LinearPredictor_predict rt (cat_transactions txs c) d)) cats),
      tot + sum_list (map (\<lambda>c. fc_total_predicted
                                (projr (LinearPredictor_predict rt (cat_transactions txs c) d)))
               (filter (\<lambda>c. 2 \<le> length (cat_transactions txs c) \<and>
                            \<not> isl (LinearPredictor_predict rt (cat_transactions txs c) d)) cats)))"
proof (induction cats arbitrary: ins tot)
  case Nil
  then show ?case by simp
next
  case (Cons c cats)
  show ?case
  proof (cases "length (cat_transactions txs c) < 2")
    case True
    then show ?thesis using Cons.IH [of ins tot] by simp
  next
    case False
    note long = this
    show ?thesis
    proof (cases "LinearPredictor_predict rt (cat_transactions txs c) d")
      case (Inl e)
      then show ?thesis using long Cons.IH [of ins tot] by simp
    next
      case (Inr result)
      then show ?thesis
        using long
          Cons.IH [of "ins @ [make_insight c (cat_transactions txs c) result]"
                      "tot + fc_total_predicted result"]
        by (simp add: Let_def)
    qed
  qed
qed

lemma insight_category [simp]: "ci_category (make_insight c txs result) = c"
  by (simp add: make_insight_def Let_def)

lemma get_spending_insights_nonempty:
  assumes "get_user_transactions rt user_id None = txs" and "txs \<noteq> []"
  shows "get_spending_insights rt user_id days_ahead =
     Inr \<lparr>ir_user_id = user_id,
          ir_total_predicted_spending =
            snd (insights_loop rt txs days_ahead (set_iteration rt (map t_category txs)) ([], 0)),
          ir_categories =
            fst (insights_loop rt txs days_ahead (set_iteration rt (map t_category txs)) ([], 0)),
          ir_overall_trend =
            overall_trend_of
              (fst (insights_loop rt txs days_ahead (set_iteration rt (map t_category txs)) ([], 0))),
          ir_created_at = now rt\<rparr>"
  using assms by (simp add: get_spending_insights_def get_spending_insights_try_def Let_def)

lemma get_spending_insights_empty:
  assumes "get_user_transactions rt user_id None = []"
  shows "get_spending_insights rt user_id days_ahead =
     Inl (HTTPException 404 ''No transaction data found for this user'')"
  using assms
  by (simp add: get_spending_insights_def get_spending_insights_try_def reraise_or_500_def)

lemma example_percentages:
  "fmul (fdiv (fsub 20 20) 20) 100 = 0"
  "fmul (fdiv (fsub 1 (- 2)) (- 2)) 100 = - 150"
  "fmul (fdiv (fsub 20 15) 20) 100 = 25"
  "fmul (fdiv (fsub 2001 2000) 2000) 100 = 3602879701896397 / 72057594037927936"
  by code_simp+

lemma example_formats:
  "format_1f 0 = ''0.0''"
  "format_1f (- 150) = ''-150.0''"
  "format_1f 25 = ''25.0''"
  "format_1f (3602879701896397 / 72057594037927936) = ''0.1''"
  by code_simp+

lemma example_fetch_ana:
  "get_user_transactions example_runtime ''ana'' None =
     [tx ''1'' ''ana'' 10 1 ''food'' ''expense'',
      tx ''3'' ''ana'' 500 1 ''rent'' ''expense'',
      tx ''2'' ''ana'' 30 2 ''food'' ''expense'',
      tx ''4'' ''ana'' 5 3 ''fun'' ''expense'',
      tx ''5'' ''ana'' 7 3 ''fun'' ''expense'']"
  by (simp add: get_user_transactions_def example_runtime_def example_collection_def tx_def
      matches_query_def)

lemma example_insights_ana:
  "get_spending_insights example_runtime ''ana'' days_ahead =
     Inr \<lparr>ir_user_id = ''ana'',
          ir_total_predicted_spending = 20 * of_int days_ahead,
          ir_categories =
            [\<lparr>ci_category = ''food'', ci_current_avg = 20, ci_predicted_avg = 20,
              ci_trend = ''increasing'', ci_recommendation = increasing_text 0\<rparr>],
          ir_overall_trend = ''increasing'',
          ir_created_at = 0\<rparr>"
proof -
  have loop:
    "insights_loop example_runtime (get_user_transactions example_runtime ''ana'' None) days_ahead
       [''rent'', ''food'', ''fun''] ([], 0) =
     ([\<lparr>ci_category = ''food'', ci_current_avg = 20, ci_predicted_avg = 20,
        ci_trend = ''increasing'', ci_recommendation = increasing_text 0\<rparr>],
      20 * of_int days_ahead)"
    unfolding example_fetch_ana
    by (simp add: cat_transactions_def tx_def example_runtime_def example_predict_def mean_def
        make_insight_def generate_recommendation_def Let_def example_percentages)
  have cats: "set_iteration example_runtime
      (map t_category (get_user_transactions example_runtime ''ana'' None)) =
      [''rent'', ''food'', ''fun'']"
    unfolding example_fetch_ana by (simp add: example_runtime_def tx_def)
  have ne: "get_user_transactions example_runtime ''ana'' None \<noteq> []"
    unfolding example_fetch_ana by simp
  have now0: "now example_runtime = 0"
    by (simp add: example_runtime_def)
  show ?thesis
    unfolding get_spending_insights_nonempty [OF refl ne] cats loop
    by (simp add: now0 overall_trend_of_def)
qed

subsection \<open>Insights: errors of one category are absorbed\<close>

text \<open>
  Claim C3. For every insights call over a non-empty fetched transaction list, whatever
  \<^verbatim>\<open>days_ahead\<close> and whatever the predictor does: the call returns a response; a
  category whose forecast raised any exception is not among the response's categories;
  the response holds exactly the insights of the categories with at least two
  transactions whose forecast returned; and \<^verbatim>\<open>total_predicted_spending\<close> is the sum of
  the \<^verbatim>\<open>total_predicted\<close> of exactly those forecasts.
\<close>

theorem insights_absorbs_category_errors:
  assumes fetched: "get_user_transactions rt user_id None = txs"
    and nonempty: "txs \<noteq> []"
    and order: "enumerates (set_iteration rt) (map t_category txs)"
  shows "\<exists>response. get_spending_insights rt user_id days_ahead = Inr response \<and>
     (\<forall>c e. LinearPredictor_predict rt (cat_transactions txs c) days_ahead = Inl e \<longrightarrow>
        c \<notin> ci_category ` set (ir_categories response)) \<and>
     set (ir_categories response) =
       (\<lambda>c. make_insight c (cat_transactions txs c)
              (projr (LinearPredictor_predict rt (cat_transactions txs c) days_ahead))) `
       {c. 2 \<le> length (cat_transactions txs c) \<and>
           \<not> isl (LinearPredictor_predict rt (cat_transactions txs c) days_ahead)} \<and>
     ir_total_predicted_spending response =
       (\<Sum>c \<in> {c. 2 \<le> length (cat_transactions txs c) \<and>
                  \<not> isl (LinearPredictor_predict rt (cat_transactions txs c) days_ahead)}.
          fc_total_predicted
            (projr (LinearPredictor_predict rt (cat_transactions txs c) days_ahead)))"
proof -
  let ?cats = "set_iteration rt (map t_category txs)"
  let ?ok = "\<lambda>c. 2 \<le> length (cat_transactions txs c) \<and>
                  \<not> isl (LinearPredictor_predict rt (cat_transactions txs c) days_ahead)"
  let ?mk = "\<lambda>c. make_insight c (cat_transactions txs c)
                   (projr (LinearPredictor_predict rt (cat_transactions txs c) days_ahead))"
  let ?tot = "\<lambda>c. fc_total_predicted
                   (projr (LinearPredictor_predict rt (cat_transactions txs c) days_ahead))"
  let ?st = "insights_loop rt txs days_ahead ?cats ([], 0)"
  have st: "?st = (map ?mk (filter ?ok ?cats), sum_list (map ?tot (filter ?ok ?cats)))"
    using insights_loop_eq [of rt txs days_ahead ?cats "[]" 0] by simp
  have dist: "distinct ?cats" and elems: "set ?cats = t_category ` set txs"
    using order by (simp_all add: enumerates_def)
  have present: "c \<in> set ?cats" if "2 \<le> length (cat_transactions txs c)" for c
  proof -
    from that have "cat_transactions txs c \<noteq> []" by auto
    then obtain t where "t \<in> set (cat_transactions txs c)"
      by (cases "cat_transactions txs c") auto
    then have "t \<in> set txs" and "t_category t = c"
      by (simp_all add: cat_transactions_def)
    then show ?thesis using elems by auto
  qed
  have okset: "set (filter ?ok ?cats) = {c. ?ok c}"
    using present by auto
  let ?response = "\<lparr>ir_user_id = user_id, ir_total_predicted_spending = snd ?st,
      ir_categories = fst ?st, ir_overall_trend = overall_trend_of (fst ?st),
      ir_created_at = now rt\<rparr>"
  have r: "get_spending_insights rt user_id days_ahead = Inr ?response"
    by (rule get_spending_insights_nonempty [OF fetched nonempty])
  have cats_eq: "ir_categories ?response = map ?mk (filter ?ok ?cats)"
    by (simp add: st)
  have names: "ci_category ` set (ir_categories ?response) = {c. ?ok c}"
    unfolding cats_eq using okset by (simp add: image_image)
  have skipped: "\<forall>c e. LinearPredictor_predict rt (cat_transactions txs c) days_ahead = Inl e \<longrightarrow>
        c \<notin> ci_category ` set (ir_categories ?response)"
    unfolding names by auto
  have members: "set (ir_categories ?response) = ?mk ` {c. ?ok c}"
    unfolding cats_eq using okset by simp
  have "ir_total_predicted_spending ?response = sum_list (map ?tot (filter ?ok ?cats))"
    by (simp add: st)
  also have "\<dots> = sum ?tot (set (filter ?ok ?cats))"
    using dist by (simp add: sum_list_distinct_conv_sum_set)
  finally have total: "ir_total_predicted_spending ?response = sum ?tot {c. ?ok c}"
    using okset by simp
  from r skipped members total show ?thesis by blast
qed

theorem insights_absorbs_category_errors_witness:
  "get_user_transactions example_runtime ''ana'' None \<noteq> [] \<and>
   enumerates (set_iteration example_runtime)
     (map t_category (get_user_transactions example_runtime ''ana'' None)) \<and>
   LinearPredictor_predict example_runtime
     (cat_transactions (get_user_transactions example_runtime ''ana'' None) ''fun'') 30 =
     Inl (ValueError ''Need at least 2 days of data'') \<and>
   (\<exists>response. get_spending_insights example_runtime ''ana'' 30 = Inr response \<and>
      ''fun'' \<notin> ci_category ` set (ir_categories response) \<and>
      ''food'' \<in> ci_category ` set (ir_categories response) \<and>
      ir_total_predicted_spending response = 600)"
proof -
  let ?txs = "get_user_transactions example_runtime ''ana'' None"
  have ne: "?txs \<noteq> []"
    unfolding example_fetch_ana by simp
  have ord: "enumerates (set_iteration example_runtime) (map t_category ?txs)"
    by (simp add: enumerates_def example_runtime_def)
  have raised: "LinearPredictor_predict example_runtime (cat_transactions ?txs ''fun'') 30 =
      Inl (ValueError ''Need at least 2 days of data'')"
    unfolding example_fetch_ana
    by (simp add: cat_transactions_def tx_def example_runtime_def example_predict_def)
  obtain response where r: "get_spending_insights example_runtime ''ana'' 30 = Inr response"
    and skipped: "\<forall>c e. LinearPredictor_predict example_runtime (cat_transactions ?txs c) 30 = Inl e \<longrightarrow>
        c \<notin> ci_category ` set (ir_categories response)"
    using insights_absorbs_category_errors [OF refl ne ord, of 30] by blast
  from skipped raised have "''fun'' \<notin> ci_category ` set (ir_categories response)"
    by blast
  moreover from r have "''food'' \<in> ci_category ` set (ir_categories response)"
    and "ir_total_predicted_spending response = 600"
    by (auto simp: example_insights_ana)
  ultimately show ?thesis using ne ord raised r by blast
qed

subsection \<open>Insights: categories with fewer than two transactions\<close>

text \<open>
  Claim C4. For every insights call over a non-empty fetched transaction list, the call
  returns a response; no category with fewer than two transactions (in particular none
  with exactly one) is among the response's categories; and
  \<^verbatim>\<open>total_predicted_spending\<close> is the sum of the forecasts' \<^verbatim>\<open>total_predicted\<close> over the
  categories the response lists, so that a skipped category adds nothing to it.
\<close>

theorem insights_skips_small_categories:
  assumes fetched: "get_user_transactions rt user_id None = txs"
    and nonempty: "txs \<noteq> []"
  shows "\<exists>response. get_spending_insights rt user_id days_ahead = Inr response \<and>
     (\<forall>c. length (cat_transactions txs c) < 2 \<longrightarrow>
        c \<notin> ci_category ` set (ir_categories response)) \<and>
     (\<forall>c. length (cat_transactions txs c) = 1 \<longrightarrow>
        c \<notin> ci_category ` set (ir_categories response)) \<and>
     ir_total_predicted_spending response =
       sum_list (map (\<lambda>ci. fc_total_predicted
                   (projr (LinearPredictor_predict rt
                      (cat_transactions txs (ci_category ci)) days_ahead)))
                 (ir_categories response))"
proof -
  let ?cats = "set_iteration rt (map t_category txs)"
  let ?ok = "\<lambda>c. 2 \<le> length (cat_transactions txs c) \<and>
                  \<not> isl (LinearPredictor_predict rt (cat_transactions txs c) days_ahead)"
  let ?mk = "\<lambda>c. make_insight c (cat_transactions txs c)
                   (projr (LinearPredictor_predict rt (cat_transactions txs c) days_ahead))"
  let ?tot = "\<lambda>c. fc_total_predicted
                   (projr (LinearPredictor_predict rt (cat_transactions txs c) days_ahead))"
  let ?st = "insights_loop rt txs days_ahead ?cats ([], 0)"
  let ?response = "\<lparr>ir_user_id = user_id, ir_total_predicted_spending = snd ?st,
      ir_categories = fst ?st, ir_overall_trend = overall_trend_of (fst ?st),
      ir_created_at = now rt\<rparr>"
  have st: "?st = (map ?mk (filter ?ok ?cats), sum_list (map ?tot (filter ?ok ?cats)))"
    using insights_loop_eq [of rt txs days_ahead ?cats "[]" 0] by simp
  have r: "get_spending_insights rt user_id days_ahead = Inr ?response"
    by (rule get_spending_insights_nonempty [OF fetched nonempty])
  have cats_eq: "ir_categories ?response = map ?mk (filter ?ok ?cats)"
    by (simp add: st)
  have names: "ci_category ` set (ir_categories ?response) = set (filter ?ok ?cats)"
    unfolding cats_eq by (simp add: image_image)
  have small: "\<forall>c. length (cat_transactions txs c) < 2 \<longrightarrow>
        c \<notin> ci_category ` set (ir_categories ?response)"
    unfolding names by auto
  then have single: "\<forall>c. length (cat_transactions txs c) = 1 \<longrightarrow>
        c \<notin> ci_category ` set (ir_categories ?response)"
    by (metis one_less_numeral_iff semiring_norm(76))
  have total: "ir_total_predicted_spending ?response =
      sum_list (map (\<lambda>ci. ?tot (ci_category ci)) (ir_categories ?response))"
    unfolding cats_eq by (simp add: st comp_def)
  from r small single total show ?thesis by blast
qed

theorem insights_skips_small_categories_witness:
  "get_user_transactions example_runtime ''ana'' None \<noteq> [] \<and>
   length (cat_transactions (get_user_transactions example_runtime ''ana'' None) ''rent'') = 1 \<and>
   (\<exists>response. get_spending_insights example_runtime ''ana'' 30 = Inr response \<and>
      ''rent'' \<notin> ci_category ` set (ir_categories response) \<and>
      ir_total_predicted_spending response = 600)"
proof -
  let ?txs = "get_user_transactions example_runtime ''ana'' None"
  have ne: "?txs \<noteq> []"
    unfolding example_fetch_ana by simp
  have one: "length (cat_transactions ?txs ''rent'') = 1"
    unfolding example_fetch_ana by (simp add: cat_transactions_def tx_def)
  obtain response where r: "get_spending_insights example_runtime ''ana'' 30 = Inr response"
    and single: "\<forall>c. length (cat_transactions ?txs c) = 1 \<longrightarrow>
        c \<notin> ci_category ` set (ir_categories response)"
    using insights_skips_small_categories [OF refl ne, of 30] by blast
  from single one have "''rent'' \<notin> ci_category ` set (ir_categories response)"
    by blast
  moreover from r have "ir_total_predicted_spending response = 600"
    by (auto simp: example_insights_ana)
  ultimately show ?thesis using ne one r by blast
qed

subsection \<open>Insights: the overall trend\<close>

text \<open>
  Claim C5. For every insights call that returns a response, \<^verbatim>\<open>overall_trend\<close> is the
  majority vote over the trends of the categories in the response: \<open>increasing\<close> when
  strictly more of them are increasing than decreasing, \<open>decreasing\<close> when strictly
  more are decreasing than increasing, and \<open>stable\<close> when the two counts are equal,
  which covers a response with no category at all.
\<close>

theorem overall_trend_is_majority_vote:
  assumes "get_spending_insights rt user_id days_ahead = Inr response"
  shows "ir_overall_trend response =
     (if length (filter (\<lambda>ci. ci_trend ci = ''increasing'') (ir_categories response)) >
         length (filter (\<lambda>ci. ci_trend ci = ''decreasing'') (ir_categories response))
      then ''increasing''
      else if length (filter (\<lambda>ci. ci_trend ci = ''decreasing'') (ir_categories response)) >
              length (filter (\<lambda>ci. ci_trend ci = ''increasing'') (ir_categories response))
      then ''decreasing''
      else ''stable'') \<and>
     (ir_categories response = [] \<longrightarrow> ir_overall_trend response = ''stable'')"
proof -
  have shape: "ir_overall_trend response = overall_trend_of (ir_categories response)"
    using assms
    by (auto simp: get_spending_insights_def get_spending_insights_try_def Let_def
        split: if_splits sum.splits)
  then show ?thesis
    by (simp add: overall_trend_of_def Let_def)
qed

theorem overall_trend_is_majority_vote_witness:
  "(\<exists>response. get_spending_insights example_runtime ''ana'' 30 = Inr response \<and>
      length (filter (\<lambda>ci. ci_trend ci = ''increasing'') (ir_categories response)) = 1 \<and>
      length (filter (\<lambda>ci. ci_trend ci = ''decreasing'') (ir_categories response)) = 0 \<and>
      ir_overall_trend response = ''increasing'') \<and>
   (\<exists>response. get_spending_insights example_runtime ''bob'' 30 = Inr response \<and>
      ir_categories response = [] \<and>
      ir_overall_trend response = ''stable'')"
proof -
  have fetch_bob: "get_user_transactions example_runtime ''bob'' None =
      [tx ''8'' ''bob'' 42 1 ''food'' ''expense'']"
    by (simp add: get_user_transactions_def example_runtime_def example_collection_def tx_def
        matches_query_def)
  have "get_user_transactions example_runtime ''bob'' None \<noteq> []"
    unfolding fetch_bob by simp
  from get_spending_insights_nonempty [OF refl this, of 30]
  obtain response' where r': "get_spending_insights example_runtime ''bob'' 30 = Inr response'"
    and none': "ir_categories response' = []"
    unfolding fetch_bob
    by (simp add: example_runtime_def tx_def cat_transactions_def)
  from overall_trend_is_majority_vote [OF r'] none'
  have bob: "\<exists>response. get_spending_insights example_runtime ''bob'' 30 = Inr response \<and>
      ir_categories response = [] \<and> ir_overall_trend response = ''stable''"
    using r' by simp
  obtain response where r: "get_spending_insights example_runtime ''ana'' 30 = Inr response"
    by (simp add: example_insights_ana)
  have inc: "length (filter (\<lambda>ci. ci_trend ci = ''increasing'') (ir_categories response)) = 1"
    and dec: "length (filter (\<lambda>ci. ci_trend ci = ''decreasing'') (ir_categories response)) = 0"
    using r by (auto simp: example_insights_ana)
  from overall_trend_is_majority_vote [OF r] inc dec
  have "ir_overall_trend response = ''increasing''"
    by simp
  with r inc dec bob show ?thesis by blast
qed

subsection \<open>Only expenses are read\<close>

text \<open>
  Claim C7. The routes read the stored collection through \<^verbatim>\<open>get_user_transactions\<close>
  only, whose query asks for \<^verbatim>\<open>type = "expense"\<close>. So two stored collections with the
  same expense records, whatever their other records are, give the same fetched
  transactions and the same outcome of every route: prediction, category prediction,
  insights and comparison.
\<close>

theorem non_expense_records_never_contribute:
  assumes "filter (\<lambda>t. t_type t = ''expense'') stored =
           filter (\<lambda>t. t_type t = ''expense'') (transactions_collection rt)"
  shows "get_user_transactions (rt\<lparr>transactions_collection := stored\<rparr>) user_id category =
           get_user_transactions rt user_id category \<and>
         set (get_user_transactions rt user_id category) \<subseteq> {t. t_type t = ''expense''} \<and>
         predict_expenses (rt\<lparr>transactions_collection := stored\<rparr>) request =
           predict_expenses rt request \<and>
         predict_category (rt\<lparr>transactions_collection := stored\<rparr>) user_id cat days_ahead model_type =
           predict_category rt user_id cat days_ahead model_type \<and>
         get_spending_insights (rt\<lparr>transactions_collection := stored\<rparr>) user_id days_ahead =
           get_spending_insights rt user_id days_ahead \<and>
         compare_models (rt\<lparr>transactions_collection := stored\<rparr>) user_id days_ahead =
           compare_models rt user_id days_ahead"
proof -
  let ?rt' = "rt\<lparr>transactions_collection := stored\<rparr>"
  have fetch: "get_user_transactions ?rt' u c = get_user_transactions rt u c" for u c
    by (rule get_user_transactions_expense_only) (simp add: assms)
  have loop: "insights_loop ?rt' txs d cats st = insights_loop rt txs d cats st" for txs d cats st
    by (cases st) (simp add: insights_loop_eq)
  have only: "set (get_user_transactions rt user_id category) \<subseteq> {t. t_type t = ''expense''}"
  proof
    fix t assume "t \<in> set (get_user_transactions rt user_id category)"
    then have "t \<in> set (filter (matches_query user_id category) (transactions_collection rt))"
      unfolding get_user_transactions_def by (auto dest: in_set_takeD)
    then show "t \<in> {t. t_type t = ''expense''}"
      by (simp add: matches_query_def)
  qed
  have sel: "select_predictor ?rt' r = select_predictor rt r" for r
    by (simp add: select_predictor_def)
  have prep: "prepare_response ?rt' r res = prepare_response rt r res" for r res
    by (simp add: prepare_response_def)
  have pe: "predict_expenses ?rt' r = predict_expenses rt r" for r
    by (simp add: predict_expenses_def predict_expenses_try_def fetch sel prep Let_def
        split: sum.splits)
  have pc: "predict_category ?rt' user_id cat days_ahead model_type =
            predict_category rt user_id cat days_ahead model_type"
    by (simp add: predict_category_def pe split: sum.splits)
  have ins: "get_spending_insights ?rt' user_id days_ahead =
             get_spending_insights rt user_id days_ahead"
    by (simp add: get_spending_insights_def get_spending_insights_try_def fetch loop Let_def)
  have cmp: "compare_models ?rt' user_id days_ahead = compare_models rt user_id days_ahead"
    by (auto simp: compare_models_def compare_models_try_def fetch Let_def split: sum.splits)
  from fetch only pe pc ins cmp show ?thesis by blast
qed

theorem non_expense_records_never_contribute_witness:
  "filter (\<lambda>t. t_type t = ''expense'') example_collection_other_incomes =
     filter (\<lambda>t. t_type t = ''expense'') (transactions_collection example_runtime) \<and>
   example_collection_other_incomes \<noteq> transactions_collection example_runtime \<and>
   get_spending_insights
     (example_runtime\<lparr>transactions_collection := example_collection_other_incomes\<rparr>) ''ana'' 30 =
     get_spending_insights example_runtime ''ana'' 30 \<and>
   predict_expenses
     (example_runtime\<lparr>transactions_collection := example_collection_other_incomes\<rparr>)
     (example_request ''ana'' ''linear'') =
     predict_expenses example_runtime (example_request ''ana'' ''linear'')"
proof -
  have same: "filter (\<lambda>t. t_type t = ''expense'') example_collection_other_incomes =
     filter (\<lambda>t. t_type t = ''expense'') (transactions_collection example_runtime)"
    by (simp add: example_collection_other_incomes_def example_runtime_def
        example_collection_def tx_def)
  have differ: "example_collection_other_incomes \<noteq> transactions_collection example_runtime"
    by (simp add: example_collection_other_incomes_def example_runtime_def
        example_collection_def tx_def)
  from non_expense_records_never_contribute [OF same, of "''ana''" None
      "example_request ''ana'' ''linear''" "''food''" 30 "''linear''"] same differ
  show ?thesis by blast
qed

subsection \<open>The recommendation text\<close>

lemma get_spending_insights_Inr:
  assumes "get_spending_insights rt user_id days_ahead = Inr response"
  shows "ir_categories response =
     fst (insights_loop rt (get_user_transactions rt user_id None) days_ahead
            (set_iteration rt (map t_category (get_user_transactions rt user_id None))) ([], 0))"
  using assms
  by (auto simp: get_spending_insights_def get_spending_insights_try_def Let_def
      split: if_splits sum.splits)

lemma make_insight_recommendation:
  "ci_recommendation (make_insight c txs result) =
     generate_recommendation (ci_trend (make_insight c txs result))
       (ci_predicted_avg (make_insight c txs result))
       (ci_current_avg (make_insight c txs result))"
  by (simp add: make_insight_def Let_def)

text \<open>
  Claim C8, as the specification states it, fails on a negative \<open>current_avg\<close>: the
  code prints the percentage \<open>0.0\<close> there, the specification's wording the quotient,
  here \<open>-150.0\<close>.
\<close>

theorem recommendation_negative_average_counterexample:
  "generate_recommendation ''increasing'' 1 (- 2) =
     ''Seus gastos nesta categoria est'' @ [CHR 0xE3] @
     ''o aumentando (~0.0%). Considere estabelecer um limite.'' \<and>
   spec_recommendation ''increasing'' 1 (- 2) =
     ''Seus gastos nesta categoria est'' @ [CHR 0xE3] @
     ''o aumentando (~-150.0%). Considere estabelecer um limite.'' \<and>
   generate_recommendation ''increasing'' 1 (- 2) \<noteq> spec_recommendation ''increasing'' 1 (- 2)"
  by (simp add: generate_recommendation_def spec_recommendation_def increasing_text_def
      example_percentages example_formats)

text \<open>
  Claim C8, amended. The recommendation of every category in an insights response is
  \<^verbatim>\<open>_generate_recommendation\<close> of that category's trend, predicted average and current
  average. For the trend \<open>increasing\<close> the text reports the percentage
  \<^verbatim>\<open>(predicted_avg - current_avg) / current_avg * 100\<close> to one decimal and suggests a
  limit; for \<open>decreasing\<close> it reports \<^verbatim>\<open>(current_avg - predicted_avg) / current_avg * 100\<close>
  with the encouraging text; the percentage is \<open>0\<close> whenever \<open>current_avg\<close> is zero or
  negative. For any other trend it is the fixed stability text. On every \<open>current_avg\<close>
  that is not negative this is the text the specification words.
\<close>

theorem recommendation_by_trend:
  assumes "get_spending_insights rt user_id days_ahead = Inr response"
  shows "(\<forall>ci \<in> set (ir_categories response).
            ci_recommendation ci =
              generate_recommendation (ci_trend ci) (ci_predicted_avg ci) (ci_current_avg ci)) \<and>
         generate_recommendation trend predicted_avg current_avg =
           (if trend = ''increasing'' then
              ''Seus gastos nesta categoria est'' @ [CHR 0xE3] @ ''o aumentando (~'' @
              format_1f
                (if current_avg \<le> 0 then 0
                 else fmul (fdiv (fsub predicted_avg current_avg) current_avg) 100) @
              ''%). Considere estabelecer um limite.''
            else if trend = ''decreasing'' then
              [CHR 0xD3] @ ''timo! Seus gastos est'' @ [CHR 0xE3] @ ''o diminuindo (~'' @
              format_1f
                (if current_avg \<le> 0 then 0
                 else fmul (fdiv (fsub current_avg predicted_avg) current_avg) 100) @
              ''%). Continue assim!''
            else
              ''Seus gastos est'' @ [CHR 0xE3] @ ''o est'' @ [CHR 0xE1] @
              ''veis. Mantenha o controle!'') \<and>
         (0 \<le> current_avg \<longrightarrow>
            generate_recommendation trend predicted_avg current_avg =
              spec_recommendation trend predicted_avg current_avg)"
proof -
  have each: "\<forall>ci \<in> set (ir_categories response).
      ci_recommendation ci =
        generate_recommendation (ci_trend ci) (ci_predicted_avg ci) (ci_current_avg ci)"
    unfolding get_spending_insights_Inr [OF assms]
    using make_insight_recommendation by (auto simp: insights_loop_eq)
  have shape: "generate_recommendation trend predicted_avg current_avg =
           (if trend = ''increasing'' then
              ''Seus gastos nesta categoria est'' @ [CHR 0xE3] @ ''o aumentando (~'' @
              format_1f
                (if current_avg \<le> 0 then 0
                 else fmul (fdiv (fsub predicted_avg current_avg) current_avg) 100) @
              ''%). Considere estabelecer um limite.''
            else if trend = ''decreasing'' then
              [CHR 0xD3] @ ''timo! Seus gastos est'' @ [CHR 0xE3] @ ''o diminuindo (~'' @
              format_1f
                (if current_avg \<le> 0 then 0
                 else fmul (fdiv (fsub current_avg predicted_avg) current_avg) 100) @
              ''%). Continue assim!''
            else
              ''Seus gastos est'' @ [CHR 0xE3] @ ''o est'' @ [CHR 0xE1] @
              ''veis. Mantenha o controle!'')"
    by (simp add: generate_recommendation_def Let_def not_less increasing_text_def
        decreasing_text_def stable_text_def)
  have agree: "0 \<le> current_avg \<longrightarrow>
      generate_recommendation trend predicted_avg current_avg =
        spec_recommendation trend predicted_avg current_avg"
    by (auto simp: generate_recommendation_def spec_recommendation_def Let_def)
  from each shape agree show ?thesis by blast
qed

theorem recommendation_by_trend_witness:
  "(\<exists>response. get_spending_insights example_runtime ''ana'' 30 = Inr response \<and>
      map ci_recommendation (ir_categories response) =
        [''Seus gastos nesta categoria est'' @ [CHR 0xE3] @
         ''o aumentando (~0.0%). Considere estabelecer um limite.'']) \<and>
   (0::real) \<le> 20 \<and>
   generate_recommendation ''decreasing'' 15 20 =
     [CHR 0xD3] @ ''timo! Seus gastos est'' @ [CHR 0xE3] @
     ''o diminuindo (~25.0%). Continue assim!'' \<and>
   spec_recommendation ''decreasing'' 15 20 =
     [CHR 0xD3] @ ''timo! Seus gastos est'' @ [CHR 0xE3] @
     ''o diminuindo (~25.0%). Continue assim!'' \<and>
   generate_recommendation ''increasing'' 2001 2000 =
     ''Seus gastos nesta categoria est'' @ [CHR 0xE3] @
     ''o aumentando (~0.1%). Considere estabelecer um limite.'' \<and>
   generate_recommendation ''stable'' 15 20 =
     ''Seus gastos est'' @ [CHR 0xE3] @ ''o est'' @ [CHR 0xE1] @
     ''veis. Mantenha o controle!'' \<and>
   length (generate_recommendation ''stable'' 15 20) = 48 \<and>
   generate_recommendation ''increasing'' 1 (- 2) =
     ''Seus gastos nesta categoria est'' @ [CHR 0xE3] @
     ''o aumentando (~0.0%). Considere estabelecer um limite.''"
proof -
  obtain response where r: "get_spending_insights example_runtime ''ana'' 30 = Inr response"
    by (simp add: example_insights_ana)
  have recs: "map ci_recommendation (ir_categories response) =
        [''Seus gastos nesta categoria est'' @ [CHR 0xE3] @
         ''o aumentando (~0.0%). Considere estabelecer um limite.'']"
    using r by (auto simp: example_insights_ana increasing_text_def example_formats)
  note t = recommendation_by_trend [OF r]
  have dec: "generate_recommendation ''decreasing'' 15 20 =
     [CHR 0xD3] @ ''timo! Seus gastos est'' @ [CHR 0xE3] @
     ''o diminuindo (~25.0%). Continue assim!''"
    using t [of "''decreasing''" 15 20] by (simp add: example_percentages example_formats)
  have spec: "spec_recommendation ''decreasing'' 15 20 =
     [CHR 0xD3] @ ''timo! Seus gastos est'' @ [CHR 0xE3] @
     ''o diminuindo (~25.0%). Continue assim!''"
    using t [of "''decreasing''" 15 20] dec by simp
  have tie: "generate_recommendation ''increasing'' 2001 2000 =
     ''Seus gastos nesta categoria est'' @ [CHR 0xE3] @
     ''o aumentando (~0.1%). Considere estabelecer um limite.''"
    using t [of "''increasing''" 2001 2000] by (simp add: example_percentages example_formats)
  have stable: "generate_recommendation ''stable'' 15 20 =
     ''Seus gastos est'' @ [CHR 0xE3] @ ''o est'' @ [CHR 0xE1] @
     ''veis. Mantenha o controle!''"
    using t [of "''stable''" 15 20] by simp
  have neg: "generate_recommendation ''increasing'' 1 (- 2) =
     ''Seus gastos nesta categoria est'' @ [CHR 0xE3] @
     ''o aumentando (~0.0%). Considere estabelecer um limite.''"
    using t [of "''increasing''" 1 "- 2"] by (simp add: example_formats)
  from r recs dec spec tie stable neg show ?thesis by auto
qed

subsection \<open>The model type of a prediction request\<close>

lemma predict_expenses_try_nonempty:
  assumes "get_user_transactions rt (req_user_id request) (req_category request) = txs"
    and "txs \<noteq> []"
  shows "predict_expenses_try rt request =
     (case select_predictor rt request of
        Inl e \<Rightarrow> Inl e
      | Inr predict \<Rightarrow>
          (case predict txs (req_days_ahead request) of
             Inl e \<Rightarrow> Inl e
           | Inr result \<Rightarrow> Inr (prepare_response rt request result)))"
  using assms by (simp add: predict_expenses_try_def Let_def)

lemma example_fetch_ana_tf:
  "get_user_transactions (example_runtime\<lparr>TENSORFLOW_AVAILABLE := True\<rparr>) ''ana'' None =
     get_user_transactions example_runtime ''ana'' None"
  by (simp add: get_user_transactions_def)

lemma example_fetch_nobody:
  "get_user_transactions example_runtime ''carol'' None = []"
  by (simp add: get_user_transactions_def example_runtime_def example_collection_def tx_def
      matches_query_def)

lemma example_request_fields [simp]:
  "req_user_id (example_request u m) = u"
  "req_category (example_request u m) = None"
  "req_days_ahead (example_request u m) = 30"
  "req_model_type (example_request u m) = m"
  by (simp_all add: example_request_def)

lemma example_request_init:
  "m = ''linear'' \<or> m = ''lstm'' \<Longrightarrow>
   PredictionRequest_init u None 30 m = Inr (example_request u m)"
  by (auto simp: PredictionRequest_init_def example_request_def)

text \<open>
  Claim C9, as the specification states it, fails for the supported value \<open>lstm\<close> when
  TensorFlow is absent: the constructor accepts the request, and the selection raises
  the \<open>503\<close> error instead of selecting the LSTM predictor. It fails too on an empty
  fetch, where the \<open>404\<close> error is raised before any selection.
\<close>

theorem lstm_selection_counterexample:
  "PredictionRequest_init ''ana'' None 30 ''lstm'' = Inr (example_request ''ana'' ''lstm'') \<and>
   \<not> TENSORFLOW_AVAILABLE example_runtime \<and>
   select_predictor example_runtime (example_request ''ana'' ''lstm'') =
     Inl (HTTPException 503
       ''LSTM model not available. TensorFlow is not installed. Using linear regression instead.'') \<and>
   select_predictor example_runtime (example_request ''ana'' ''lstm'') \<noteq>
     Inr (spec_select_predictor example_runtime (example_request ''ana'' ''lstm'')) \<and>
   PredictionRequest_init ''carol'' None 30 ''linear'' =
     Inr (example_request ''carol'' ''linear'') \<and>
   predict_expenses_try example_runtime (example_request ''carol'' ''linear'') =
     Inl (HTTPException 404 ''No transaction data found for this user'')"
  by (simp add: example_request_init select_predictor_def example_runtime_def
      predict_expenses_try_def example_fetch_nobody [unfolded example_runtime_def])

text \<open>
  Claim C9, amended. A \<^verbatim>\<open>model_type\<close> other than \<open>linear\<close> and \<open>lstm\<close> is refused by the
  constructor of \<^verbatim>\<open>PredictionRequest\<close> with a \<^verbatim>\<open>ValidationError\<close> that names the field,
  and the category route fails with that error whatever the runtime is: no stored
  record is read and no predictor is run. A request the constructor accepts has one of
  the two values. The selection picks the linear predictor for \<open>linear\<close>; for \<open>lstm\<close>
  it picks the LSTM predictor with lookback 7 when TensorFlow is present, and otherwise
  picks none and raises the \<open>503\<close> error. On an empty fetch the route raises the \<open>404\<close>
  error before the selection. On fetched transactions the body of the route ends as
  the selected predictor does: with its forecast as the response, which the route
  returns, or with its exception; without TensorFlow an \<open>lstm\<close> request ends with the
  \<open>503\<close> error and the linear predictor is not run.
\<close>

theorem model_type_validated_and_selected:
  "(model_type \<noteq> ''linear'' \<and> model_type \<noteq> ''lstm'' \<longrightarrow>
      (\<exists>fields. ''model_type'' \<in> set fields \<and>
         PredictionRequest_init user_id category days_ahead model_type =
           Inl (ValidationError fields) \<and>
         (\<forall>rt'. predict_category rt' user_id cat days_ahead model_type =
           Inl (ValidationError fields)))) \<and>
   (PredictionRequest_init user_id category days_ahead model_type = Inr request \<longrightarrow>
      req_model_type request = model_type \<and>
      (model_type = ''linear'' \<or> model_type = ''lstm'') \<and>
      (model_type = ''linear'' \<longrightarrow>
         select_predictor rt request = Inr (LinearPredictor_predict rt)) \<and>
      (model_type = ''lstm'' \<and> TENSORFLOW_AVAILABLE rt \<longrightarrow>
         select_predictor rt request = Inr (LSTMPredictor_predict rt (Some 7))) \<and>
      (model_type = ''lstm'' \<and> \<not> TENSORFLOW_AVAILABLE rt \<longrightarrow>
         select_predictor rt request =
           Inl (HTTPException 503
             ''LSTM model not available. TensorFlow is not installed. Using linear regression instead.'')) \<and>
      (get_user_transactions rt (req_user_id request) (req_category request) = [] \<longrightarrow>
         predict_expenses_try rt request =
           Inl (HTTPException 404 ''No transaction data found for this user'')) \<and>
      (get_user_transactions rt (req_user_id request) (req_category request) \<noteq> [] \<longrightarrow>
         (model_type = ''linear'' \<longrightarrow>
            predict_expenses_try rt request =
              (case LinearPredictor_predict rt
                      (get_user_transactions rt (req_user_id request) (req_category request))
                      (req_days_ahead request) of
                 Inl e \<Rightarrow> Inl e
               | Inr result \<Rightarrow> Inr (prepare_response rt request result)) \<and>
            (\<forall>result.
               LinearPredictor_predict rt
                 (get_user_transactions rt (req_user_id request) (req_category request))
                 (req_days_ahead request) = Inr result \<longrightarrow>
               predict_expenses rt request = Inr (prepare_response rt request result))) \<and>
         (model_type = ''lstm'' \<and> TENSORFLOW_AVAILABLE rt \<longrightarrow>
            predict_expenses_try rt request =
              (case LSTMPredictor_predict rt (Some 7)
                      (get_user_transactions rt (req_user_id request) (req_category request))
                      (req_days_ahead request) of
                 Inl e \<Rightarrow> Inl e
               | Inr result \<Rightarrow> Inr (prepare_response rt request result)) \<and>
            (\<forall>result.
               LSTMPredictor_predict rt (Some 7)
                 (get_user_transactions rt (req_user_id request) (req_category request))
                 (req_days_ahead request) = Inr result \<longrightarrow>
               predict_expenses rt request = Inr (prepare_response rt request result))) \<and>
         (model_type = ''lstm'' \<and> \<not> TENSORFLOW_AVAILABLE rt \<longrightarrow>
            predict_expenses_try rt request =
              Inl (HTTPException 503
                ''LSTM model not available. TensorFlow is not installed. Using linear regression instead.''))))"
proof -
  let ?bad = "(if 1 \<le> days_ahead \<and> days_ahead \<le> 365 then [] else [''days_ahead'']) @
              [''model_type'']"
  let ?txs = "get_user_transactions rt (req_user_id request) (req_category request)"
  have refused: "model_type \<noteq> ''linear'' \<and> model_type \<noteq> ''lstm'' \<longrightarrow>
      (\<exists>fields. ''model_type'' \<in> set fields \<and>
         PredictionRequest_init user_id category days_ahead model_type =
           Inl (ValidationError fields) \<and>
         (\<forall>rt'. predict_category rt' user_id cat days_ahead model_type =
           Inl (ValidationError fields)))"
  proof
    assume unknown: "model_type \<noteq> ''linear'' \<and> model_type \<noteq> ''lstm''"
    then have init: "PredictionRequest_init u c days_ahead model_type =
        Inl (ValidationError ?bad)" for u c
      by (simp add: PredictionRequest_init_def)
    then have "\<forall>rt'. predict_category rt' user_id cat days_ahead model_type =
        Inl (ValidationError ?bad)"
      by (simp add: predict_category_def)
    with init [of user_id category] show "\<exists>fields. ''model_type'' \<in> set fields \<and>
         PredictionRequest_init user_id category days_ahead model_type =
           Inl (ValidationError fields) \<and>
         (\<forall>rt'. predict_category rt' user_id cat days_ahead model_type =
           Inl (ValidationError fields))"
      by (intro exI [of _ ?bad]) simp
  qed
  have accepted: "PredictionRequest_init user_id category days_ahead model_type = Inr request \<longrightarrow>
      req_model_type request = model_type \<and> (model_type = ''linear'' \<or> model_type = ''lstm'')"
    by (auto simp: PredictionRequest_init_def Let_def split: if_splits)
  have lin: "req_model_type request = ''linear'' \<longrightarrow>
      select_predictor rt request = Inr (LinearPredictor_predict rt)"
    by (simp add: select_predictor_def)
  have lstm: "req_model_type request = ''lstm'' \<and> TENSORFLOW_AVAILABLE rt \<longrightarrow>
      select_predictor rt request = Inr (LSTMPredictor_predict rt (Some 7))"
    by (simp add: select_predictor_def)
  have none: "req_model_type request = ''lstm'' \<and> \<not> TENSORFLOW_AVAILABLE rt \<longrightarrow>
      select_predictor rt request =
        Inl (HTTPException 503
          ''LSTM model not available. TensorFlow is not installed. Using linear regression instead.'')"
    by (simp add: select_predictor_def)
  have empty: "?txs = [] \<longrightarrow>
      predict_expenses_try rt request =
        Inl (HTTPException 404 ''No transaction data found for this user'')"
    by (simp add: predict_expenses_try_def)
  have body: "?txs \<noteq> [] \<longrightarrow>
      predict_expenses_try rt request =
        (case select_predictor rt request of
           Inl e \<Rightarrow> Inl e
         | Inr predict \<Rightarrow>
             (case predict ?txs (req_days_ahead request) of
                Inl e \<Rightarrow> Inl e
              | Inr result \<Rightarrow> Inr (prepare_response rt request result)))"
    using predict_expenses_try_nonempty [OF refl] by blast
  have route: "predict_expenses_try rt request = Inr response \<longrightarrow>
      predict_expenses rt request = Inr response" for response
    by (simp add: predict_expenses_def)
  from refused accepted lin lstm none empty body route show ?thesis
    by (auto simp del: str_exc.simps)
qed

theorem model_type_validated_and_selected_witness:
  "''arima'' \<noteq> ''linear'' \<and> ''arima'' \<noteq> ''lstm'' \<and>
   predict_category example_runtime ''ana'' ''food'' 30 ''arima'' =
     Inl (ValidationError [''model_type'']) \<and>
   PredictionRequest_init ''ana'' None 30 ''linear'' = Inr (example_request ''ana'' ''linear'') \<and>
   get_user_transactions example_runtime ''ana'' None \<noteq> [] \<and>
   predict_expenses example_runtime (example_request ''ana'' ''linear'') =
     Inr (prepare_response example_runtime (example_request ''ana'' ''linear'')
            \<lparr>fc_predictions = [], fc_total_predicted = 3312, fc_avg_daily_spending = 552 / 5,
             fc_trend = ''decreasing'', fc_accuracy_score = None\<rparr>) \<and>
   PredictionRequest_init ''ana'' None 30 ''lstm'' = Inr (example_request ''ana'' ''lstm'') \<and>
   TENSORFLOW_AVAILABLE (example_runtime\<lparr>TENSORFLOW_AVAILABLE := True\<rparr>) \<and>
   predict_expenses_try (example_runtime\<lparr>TENSORFLOW_AVAILABLE := True\<rparr>)
       (example_request ''ana'' ''lstm'') =
     Inl (ValueError ''Need more history'') \<and>
   \<not> TENSORFLOW_AVAILABLE example_runtime \<and>
   predict_expenses_try example_runtime (example_request ''ana'' ''lstm'') =
     Inl (HTTPException 503
       ''LSTM model not available. TensorFlow is not installed. Using linear regression instead.'') \<and>
   get_user_transactions example_runtime ''carol'' None = [] \<and>
   predict_expenses_try example_runtime (example_request ''carol'' ''linear'') =
     Inl (HTTPException 404 ''No transaction data found for this user'')"
proof -
  let ?tf = "example_runtime\<lparr>TENSORFLOW_AVAILABLE := True\<rparr>"
  have unknown: "''arima'' \<noteq> ''linear'' \<and> ''arima'' \<noteq> ''lstm''"
    by simp
  have init_arima: "PredictionRequest_init ''ana'' None 30 ''arima'' =
      Inl (ValidationError [''model_type''])"
    by (simp add: PredictionRequest_init_def)
  have init_linear: "PredictionRequest_init u None 30 ''linear'' =
      Inr (example_request u ''linear'')" for u
    by (simp add: example_request_init)
  have init_lstm: "PredictionRequest_init ''ana'' None 30 ''lstm'' =
      Inr (example_request ''ana'' ''lstm'')"
    by (simp add: example_request_init)
  have ne: "get_user_transactions example_runtime ''ana'' None \<noteq> []"
    unfolding example_fetch_ana by simp
  have no_tf: "\<not> TENSORFLOW_AVAILABLE example_runtime"
    by (simp add: example_runtime_def)
  have linear_run: "LinearPredictor_predict example_runtime
      (get_user_transactions example_runtime ''ana'' None) 30 =
      Inr \<lparr>fc_predictions = [], fc_total_predicted = 3312, fc_avg_daily_spending = 552 / 5,
           fc_trend = ''decreasing'', fc_accuracy_score = None\<rparr>"
    unfolding example_fetch_ana
    by (simp add: example_runtime_def example_predict_def tx_def mean_def)
  have lstm_run: "LSTMPredictor_predict example_runtime (Some 7)
      (get_user_transactions example_runtime ''ana'' None) 30 =
      Inl (ValueError ''Need more history'')"
    unfolding example_fetch_ana
    by (simp add: example_runtime_def example_lstm_predict_def)
  from model_type_validated_and_selected
    [of "''arima''" "''ana''" None 30 "''food''" "example_request ''ana'' ''arima''"
      example_runtime] unknown init_arima
  have arima: "predict_category example_runtime ''ana'' ''food'' 30 ''arima'' =
      Inl (ValidationError [''model_type''])"
    by auto
  from model_type_validated_and_selected
    [of "''linear''" "''ana''" None 30 "''food''" "example_request ''ana'' ''linear''"
      example_runtime] init_linear ne
  have linear: "predict_expenses example_runtime (example_request ''ana'' ''linear'') =
     Inr (prepare_response example_runtime (example_request ''ana'' ''linear'')
            \<lparr>fc_predictions = [], fc_total_predicted = 3312, fc_avg_daily_spending = 552 / 5,
             fc_trend = ''decreasing'', fc_accuracy_score = None\<rparr>)"
    by (simp add: linear_run)
  from model_type_validated_and_selected
    [of "''lstm''" "''ana''" None 30 "''food''" "example_request ''ana'' ''lstm''" ?tf]
    init_lstm ne
  have lstm: "predict_expenses_try ?tf (example_request ''ana'' ''lstm'') =
     Inl (ValueError ''Need more history'')"
    by (simp add: example_fetch_ana_tf lstm_run)
  from model_type_validated_and_selected
    [of "''lstm''" "''ana''" None 30 "''food''" "example_request ''ana'' ''lstm''"
      example_runtime] init_lstm ne no_tf
  have none: "predict_expenses_try example_runtime (example_request ''ana'' ''lstm'') =
     Inl (HTTPException 503
       ''LSTM model not available. TensorFlow is not installed. Using linear regression instead.'')"
    by simp
  from model_type_validated_and_selected
    [of "''linear''" "''carol''" None 30 "''food''" "example_request ''carol'' ''linear''"
      example_runtime] init_linear example_fetch_nobody
  have empty: "predict_expenses_try example_runtime (example_request ''carol'' ''linear'') =
     Inl (HTTPException 404 ''No transaction data found for this user'')"
    by simp
  from unknown arima init_linear ne linear init_lstm lstm no_tf none example_fetch_nobody empty
  show ?thesis
    by simp
qed

subsection \<open>The category route and the prediction route\<close>

text \<open>
  Claim C10. When the constructor of \<^verbatim>\<open>PredictionRequest\<close> accepts the user, the
  category, \<^verbatim>\<open>days_ahead\<close> and \<^verbatim>\<open>model_type\<close>, the request it builds holds those four
  values, and the category route returns, or fails with, exactly what the prediction
  route does on that request in the same runtime.
\<close>

theorem predict_category_is_predict_expenses:
  assumes "PredictionRequest_init user_id (Some category) days_ahead model_type = Inr request"
  shows "predict_category rt user_id category days_ahead model_type =
           predict_expenses rt request \<and>
         request = \<lparr>req_user_id = user_id, req_category = Some category,
                    req_days_ahead = days_ahead, req_model_type = model_type\<rparr> \<and>
         1 \<le> days_ahead \<and> days_ahead \<le> 365 \<and>
         (model_type = ''linear'' \<or> model_type = ''lstm'')"
  using assms
  by (auto simp: predict_category_def PredictionRequest_init_def Let_def split: if_splits)

theorem predict_category_is_predict_expenses_witness:
  "PredictionRequest_init ''ana'' (Some ''food'') 30 ''linear'' =
     Inr \<lparr>req_user_id = ''ana'', req_category = Some ''food'', req_days_ahead = 30,
          req_model_type = ''linear''\<rparr> \<and>
   predict_category example_runtime ''ana'' ''food'' 30 ''linear'' =
     predict_expenses example_runtime
       \<lparr>req_user_id = ''ana'', req_category = Some ''food'', req_days_ahead = 30,
        req_model_type = ''linear''\<rparr> \<and>
   (\<exists>response. predict_category example_runtime ''ana'' ''food'' 30 ''linear'' = Inr response \<and>
      resp_total_predicted response = 600 \<and> resp_trend response = ''increasing'') \<and>
   PredictionRequest_init ''ana'' (Some ''food'') 30 ''lstm'' =
     Inr \<lparr>req_user_id = ''ana'', req_category = Some ''food'', req_days_ahead = 30,
          req_model_type = ''lstm''\<rparr> \<and>
   predict_category example_runtime ''ana'' ''food'' 30 ''lstm'' =
     predict_expenses example_runtime
       \<lparr>req_user_id = ''ana'', req_category = Some ''food'', req_days_ahead = 30,
        req_model_type = ''lstm''\<rparr>"
proof -
  have init: "PredictionRequest_init ''ana'' (Some ''food'') 30 m =
     Inr \<lparr>req_user_id = ''ana'', req_category = Some ''food'', req_days_ahead = 30,
          req_model_type = m\<rparr>" if "m = ''linear'' \<or> m = ''lstm''" for m
    using that by (auto simp: PredictionRequest_init_def)
  have run: "predict_expenses example_runtime
       \<lparr>req_user_id = ''ana'', req_category = Some ''food'', req_days_ahead = 30,
        req_model_type = ''linear''\<rparr> =
     Inr \<lparr>resp_user_id = ''ana'', resp_category = Some ''food'', resp_predictions = [],
          resp_model_type = ''linear'', resp_accuracy_score = None,
          resp_total_predicted = 600, resp_avg_daily_spending = 20,
          resp_trend = ''increasing'', resp_created_at = 0\<rparr>"
    by (simp add: predict_expenses_def predict_expenses_try_def get_user_transactions_def
        example_runtime_def example_collection_def tx_def matches_query_def
        select_predictor_def example_predict_def mean_def prepare_response_def)
  note lin = predict_category_is_predict_expenses [OF init [of "''linear''"], of example_runtime]
  note lstm = predict_category_is_predict_expenses [OF init [of "''lstm''"], of example_runtime]
  from lin lstm init run show ?thesis
    by simp
qed

subsection \<open>What the handlers of the prediction route do to its own HTTP errors\<close>

lemma predict_expenses_empty:
  assumes "get_user_transactions rt (req_user_id request) (req_category request) = []"
  shows "predict_expenses rt request =
     Inl (HTTPException 500
       (''Prediction error: '' @
        str_exc (HTTPException 404 ''No transaction data found for this user'')))"
  using assms
  by (simp add: predict_expenses_def predict_expenses_try_def predict_expenses_except_def)

text \<open>
  Claim C1, on the code. A request for \<open>lstm\<close> without TensorFlow, on fetched
  transactions, raises the \<open>503\<close> error inside the \<^verbatim>\<open>try\<close> statement and never runs
  the linear predictor; but the route's own \<^verbatim>\<open>except Exception\<close> catches that error,
  and the route answers \<open>500\<close> with the \<open>503\<close> text as its detail.
\<close>

theorem lstm_unavailable_answers_500:
  assumes "req_model_type request = ''lstm''"
    and "\<not> TENSORFLOW_AVAILABLE rt"
    and "get_user_transactions rt (req_user_id request) (req_category request) \<noteq> []"
  shows "predict_expenses_try rt request =
           Inl (HTTPException 503
             ''LSTM model not available. TensorFlow is not installed. Using linear regression instead.'') \<and>
         predict_expenses rt request =
           Inl (HTTPException 500
             (''Prediction error: '' @
              str_exc (HTTPException 503
                ''LSTM model not available. TensorFlow is not installed. Using linear regression instead.'')))"
  using assms
  by (simp add: predict_expenses_def predict_expenses_try_def predict_expenses_except_def
      select_predictor_def del: str_exc.simps)

theorem lstm_unavailable_answers_500_witness:
  "req_model_type (example_request ''ana'' ''lstm'') = ''lstm'' \<and>
   \<not> TENSORFLOW_AVAILABLE example_runtime \<and>
   get_user_transactions example_runtime (req_user_id (example_request ''ana'' ''lstm''))
     (req_category (example_request ''ana'' ''lstm'')) \<noteq> [] \<and>
   predict_expenses example_runtime (example_request ''ana'' ''lstm'') =
     Inl (HTTPException 500
       ''Prediction error: 503: LSTM model not available. TensorFlow is not installed. Using linear regression instead.'')"
proof -
  have m: "req_model_type (example_request ''ana'' ''lstm'') = ''lstm''"
    by (simp add: example_request_def)
  have tf: "\<not> TENSORFLOW_AVAILABLE example_runtime"
    by (simp add: example_runtime_def)
  have ne: "get_user_transactions example_runtime (req_user_id (example_request ''ana'' ''lstm''))
     (req_category (example_request ''ana'' ''lstm'')) \<noteq> []"
    by (simp add: example_request_def example_fetch_ana)
  have code: "str_int 503 = ''503''"
    by (simp add: str_int.simps digit_char_def)
  from lstm_unavailable_answers_500 [OF m tf ne] m tf ne show ?thesis
    by (simp add: code)
qed

text \<open>
  Claim C6, on the code. With no fetched transaction, the insights route and the
  comparison route answer \<open>404\<close>; the prediction route raises the same \<open>404\<close> inside its
  \<^verbatim>\<open>try\<close> statement, where its own \<^verbatim>\<open>except Exception\<close> catches it, and answers \<open>500\<close>.
\<close>

theorem empty_data_answers:
  "(get_user_transactions rt (req_user_id request) (req_category request) = [] \<longrightarrow>
      predict_expenses rt request =
        Inl (HTTPException 500
          (''Prediction error: '' @
           str_exc (HTTPException 404 ''No transaction data found for this user'')))) \<and>
   (get_user_transactions rt user_id None = [] \<longrightarrow>
      get_spending_insights rt user_id days_ahead =
        Inl (HTTPException 404 ''No transaction data found for this user'') \<and>
      compare_models rt user_id days_ahead =
        Inl (HTTPException 404 ''No transaction data found for this user''))"
proof -
  have cmp: "compare_models rt user_id days_ahead =
      Inl (HTTPException 404 ''No transaction data found for this user'')"
    if "get_user_transactions rt user_id None = []"
    using that by (simp add: compare_models_def compare_models_try_def reraise_or_500_def)
  show ?thesis
    using predict_expenses_empty [of rt request]
      get_spending_insights_empty [of rt user_id days_ahead] cmp
    by blast
qed

theorem empty_data_answers_witness:
  "get_user_transactions example_runtime (req_user_id (example_request ''carol'' ''linear''))
     (req_category (example_request ''carol'' ''linear'')) = [] \<and>
   predict_expenses example_runtime (example_request ''carol'' ''linear'') =
     Inl (HTTPException 500 ''Prediction error: 404: No transaction data found for this user'') \<and>
   get_spending_insights example_runtime ''carol'' 30 =
     Inl (HTTPException 404 ''No transaction data found for this user'')"
proof -
  have e: "get_user_transactions example_runtime (req_user_id (example_request ''carol'' ''linear''))
     (req_category (example_request ''carol'' ''linear'')) = []"
    by (simp add: example_request_def example_fetch_nobody)
  have code: "str_int 404 = ''404''"
    by (simp add: str_int.simps digit_char_def)
  from empty_data_answers [of example_runtime "example_request ''carol'' ''linear''" "''carol''" 30]
    e example_fetch_nobody
  show ?thesis
    by (simp add: code)
qed

text \<open>
  Claim C2, on the code. The insights route and the comparison route take
  \<^verbatim>\<open>days_ahead\<close> as a plain integer and hand it to the predictor unchecked. On fetched
  transactions the insights route returns a response for every \<^verbatim>\<open>days_ahead\<close>, in or
  out of \<open>1..365\<close>; the comparison route returns a comparison whenever the linear
  predictor returns a forecast, and answers \<open>500\<close> when the predictor raises a
  \<^verbatim>\<open>ValueError\<close>. Only the constructor of \<^verbatim>\<open>PredictionRequest\<close> checks the range.
\<close>

theorem days_ahead_unchecked_outside_request:
  assumes "get_user_transactions rt user_id None = txs" and "txs \<noteq> []"
  shows "(\<exists>response. get_spending_insights rt user_id days_ahead = Inr response) \<and>
         (\<forall>result. LinearPredictor_predict rt txs days_ahead = Inr result \<longrightarrow>
            (\<exists>c. compare_models rt user_id days_ahead = Inr c \<and>
                  cmp_days_ahead c = days_ahead)) \<and>
         (\<forall>msg. LinearPredictor_predict rt txs days_ahead = Inl (ValueError msg) \<longrightarrow>
            compare_models rt user_id days_ahead =
              Inl (HTTPException 500 (''Comparison error: '' @ msg))) \<and>
         (\<not> (1 \<le> days_ahead \<and> days_ahead \<le> 365) \<longrightarrow>
            (\<exists>fields. ''days_ahead'' \<in> set fields \<and>
               PredictionRequest_init user_id category days_ahead model_type =
                 Inl (ValidationError fields)))"
proof -
  have ins: "\<exists>response. get_spending_insights rt user_id days_ahead = Inr response"
    using get_spending_insights_nonempty [OF assms] by blast
  have ok: "\<forall>result. LinearPredictor_predict rt txs days_ahead = Inr result \<longrightarrow>
            (\<exists>c. compare_models rt user_id days_ahead = Inr c \<and> cmp_days_ahead c = days_ahead)"
    using assms by (simp add: compare_models_def compare_models_try_def Let_def)
  have bad: "\<forall>msg. LinearPredictor_predict rt txs days_ahead = Inl (ValueError msg) \<longrightarrow>
            compare_models rt user_id days_ahead =
              Inl (HTTPException 500 (''Comparison error: '' @ msg))"
    using assms
    by (simp add: compare_models_def compare_models_try_def Let_def reraise_or_500_def)
  have init: "\<not> (1 \<le> days_ahead \<and> days_ahead \<le> 365) \<longrightarrow>
            (\<exists>fields. ''days_ahead'' \<in> set fields \<and>
               PredictionRequest_init user_id category days_ahead model_type =
                 Inl (ValidationError fields))"
    by (auto simp: PredictionRequest_init_def Let_def)
  from ins ok bad init show ?thesis by blast
qed

theorem days_ahead_unchecked_outside_request_witness:
  "get_user_transactions example_runtime ''ana'' None \<noteq> [] \<and>
   \<not> (1 \<le> (0::int) \<and> (0::int) \<le> 365) \<and>
   (\<exists>response. get_spending_insights example_runtime ''ana'' 0 = Inr response \<and>
      map ci_category (ir_categories response) = [''food''] \<and>
      ir_total_predicted_spending response = 0) \<and>
   (\<exists>c. compare_models example_runtime ''ana'' 0 = Inr c \<and> cmp_days_ahead c = 0) \<and>
   PredictionRequest_init ''ana'' None 0 ''linear'' = Inl (ValidationError [''days_ahead''])"
proof -
  let ?txs = "get_user_transactions example_runtime ''ana'' None"
  have ne: "?txs \<noteq> []"
    unfolding example_fetch_ana by simp
  have run: "LinearPredictor_predict example_runtime ?txs 0 =
      Inr \<lparr>fc_predictions = [], fc_total_predicted = 0, fc_avg_daily_spending = 552 / 5,
           fc_trend = ''decreasing'', fc_accuracy_score = None\<rparr>"
    unfolding example_fetch_ana
    by (simp add: example_runtime_def example_predict_def tx_def mean_def)
  have init: "PredictionRequest_init ''ana'' None 0 ''linear'' =
      Inl (ValidationError [''days_ahead''])"
    by (simp add: PredictionRequest_init_def)
  note t = days_ahead_unchecked_outside_request [OF refl ne, of 0 None "''linear''"]
  from t obtain response where r: "get_spending_insights example_runtime ''ana'' 0 = Inr response"
    by blast
  from r have shape: "map ci_category (ir_categories response) = [''food'']"
    "ir_total_predicted_spending response = 0"
    by (auto simp: example_insights_ana)
  from t run have cmp: "\<exists>c. compare_models example_runtime ''ana'' 0 = Inr c \<and> cmp_days_ahead c = 0"
    by blast
  from ne r shape cmp init show ?thesis
    by simp
qed

end
